theory Spec2Isabelle
  imports Main
begin

section \<open>Data model (shared/schema.ts)\<close>

text \<open>
  A row of the \<^verbatim>\<open>messages\<close> table, which is also the shape of the message objects
  the serverless function builds. Identifiers are UUID strings; the timestamp is an
  abstract reading of the wall clock.
\<close>

record Message =
  msg_id :: string
  sessionId :: string
  role :: string
  content :: string
  timestamp :: nat

record ChatSession =
  session_id :: string
  userId :: string
  title :: "string option"
  createdAt :: nat
  updatedAt :: nat

text \<open>
  What lies outside the program: the values \<^verbatim>\<open>crypto.randomUUID()\<close> (or the
  database default \<^verbatim>\<open>gen_random_uuid()\<close>) and the clock yield. The n-th draw
  returns \<open>randomUUID w n\<close>; the clock is read at the same index.
\<close>

record world =
  randomUUID :: "nat \<Rightarrow> string"
  clock :: "nat \<Rightarrow> nat"

section \<open>The upstream completion API\<close>

record PerplexityMessage =
  p_role :: string
  p_content :: string

text \<open>
  The request handed to \<^verbatim>\<open>fetch\<close>. The sampling parameters (temperature, top_p and
  the two penalties) are floating-point constants, equal in both variants, and are left out.
  \<open>abort_after_ms\<close> is the delay of the timer that aborts the call.
\<close>

record fetch_request =
  url :: string
  authorization :: string
  model :: string
  request_messages :: "PerplexityMessage list"
  return_images :: bool
  return_related_questions :: bool
  stream :: bool
  abort_after_ms :: nat

text \<open>A thrown JavaScript error: its \<^verbatim>\<open>name\<close> and its \<^verbatim>\<open>message\<close>.\<close>

datatype js_error = JsError string string

fun error_name :: "js_error \<Rightarrow> string" where
  "error_name (JsError n m) = n"

fun error_message :: "js_error \<Rightarrow> string" where
  "error_message (JsError n m) = m"

text \<open>
  The body of an upstream response as the handlers read it: \<open>NotJson e\<close> when
  \<^verbatim>\<open>.json()\<close> rejects with \<open>e\<close>; \<open>Json None\<close> an object without a
  \<^verbatim>\<open>choices\<close> array; \<open>Json (Some cs)\<close> a \<^verbatim>\<open>choices\<close> array, each entry
  giving its \<^verbatim>\<open>message.content\<close> when it has one.
\<close>

datatype response_body = NotJson js_error | Json "string option list option"

text \<open>
  \<^verbatim>\<open>await fetch(...)\<close> either resolves with a status and a body or rejects. When the
  abort timer fires first it rejects with an error named \<^verbatim>\<open>AbortError\<close>.
  Reading the body of a response that is not ok with \<^verbatim>\<open>.text()\<close> is taken to
  succeed.
\<close>

datatype fetch_outcome = Resolved nat response_body | Rejected js_error

definition response_ok :: "nat \<Rightarrow> bool" where
  "response_ok status = (200 \<le> status \<and> status \<le> 299)"

section \<open>HTTP responses of the route layer\<close>

datatype json_body =
    ErrorBody string
  | ErrorDetailsBody string string
  | ChatResponse string string
  | MessagesBody "Message list"
  | SessionBody ChatSession
  | SessionsBody "ChatSession list"
  | MessageBody string

text \<open>
  What one request leaves behind: the response (status and JSON body), the store after
  the request, and the requests sent to the upstream API while handling it.
\<close>

record 'st outcome =
  status :: nat
  body :: json_body
  store :: 'st
  fetched :: "fetch_request list"

definition respond :: "nat \<Rightarrow> json_body \<Rightarrow> 'st \<Rightarrow> fetch_request list \<Rightarrow> 'st outcome" where
  "respond code b st reqs = \<lparr>status = code, body = b, store = st, fetched = reqs\<rparr>"

section \<open>JavaScript helpers\<close>

text \<open>Truthiness of a value that is a string or \<^verbatim>\<open>undefined\<close>.\<close>

definition truthy :: "string option \<Rightarrow> bool" where
  "truthy v = (case v of None \<Rightarrow> False | Some s \<Rightarrow> s \<noteq> [])"

text \<open>\<^verbatim>\<open>xs.slice(start)\<close>: a negative start counts from the end, clamped at 0.\<close>

definition slice_from :: "int \<Rightarrow> 'a list \<Rightarrow> 'a list" where
  "slice_from start xs =
     (let len = int (length xs);
          k = (if start < 0 then max (len + start) 0 else min start len)
      in drop (nat k) xs)"

text \<open>\<^verbatim>\<open>s.includes(sub)\<close>.\<close>

fun includes_str :: "string \<Rightarrow> string \<Rightarrow> bool" where
  "includes_str [] sub = (sub = [])"
| "includes_str (c # cs) sub = (take (length sub) (c # cs) = sub \<or> includes_str cs sub)"

text \<open>\<^verbatim>\<open>choices[0]?.message?.content\<close> on a \<^verbatim>\<open>choices\<close> array.\<close>

definition first_content :: "string option list \<Rightarrow> string option" where
  "first_content choices = (case choices of [] \<Rightarrow> None | c # _ \<Rightarrow> c)"

section \<open>Fixed strings\<close>

definition system_prompt :: string where
  "system_prompt = ''You are AniVerse AI, an intelligent assistant specialized in anime and manga. You have deep knowledge about anime series, manga titles, characters, storylines, recommendations, and the broader anime/manga culture. Provide detailed, accurate, and engaging responses about anime and manga topics. Be enthusiastic and knowledgeable while maintaining a friendly tone. Always respond to greetings like 'hi', 'hello', 'hey' in a friendly manner.''"

definition completions_url :: string where
  "completions_url = ''https://api.perplexity.ai/chat/completions''"

definition greeting_text :: string where
  "greeting_text = ''Hello! I'm AniVerse AI, your anime and manga companion. What would you like to discuss today?''"

definition knowledge_base_text :: string where
  "knowledge_base_text = ''Sorry, I'm having trouble accessing my knowledge base right now. Please try again in a moment.''"

definition rate_limit_text :: string where
  "rate_limit_text = ''Sorry, I'm receiving too many requests right now. Please try again in a moment.''"

text \<open>The strings of server/routes.ts. The first one starts with the UTF-8 bytes of the key emoji.\<close>

definition routes_auth_text :: string where
  "routes_auth_text =
     [CHR 0xF0, CHR 0x9F, CHR 0x94, CHR 0x91] @ '' API Authentication Error'' @ [CHR 0x0A, CHR 0x0A]
     @ ''Your Perplexity API key has no credits remaining. To fix this:'' @ [CHR 0x0A, CHR 0x0A]
     @ ''1. Go to https://sonar.perplexity.ai/'' @ [CHR 0x0A]
     @ ''2. Check your credit balance'' @ [CHR 0x0A]
     @ ''3. Purchase more credits or add a payment method'' @ [CHR 0x0A]
     @ ''4. Pro users get $5 free credits monthly'' @ [CHR 0x0A, CHR 0x0A]
     @ ''Note: API keys only work with a non-zero balance.''"

definition routes_bad_request_text :: string where
  "routes_bad_request_text = ''Sorry, there was an issue with the request format. The API model or parameters may have changed.''"

definition routes_not_configured_text :: string where
  "routes_not_configured_text = ''Sorry, the AI service is not configured. Please set up the PERPLEXITY_API_KEY environment variable.''"

definition routes_invalid_response_text :: string where
  "routes_invalid_response_text = ''Sorry, I received an invalid response. Please try again.''"

definition routes_connect_text :: string where
  "routes_connect_text = ''Sorry, I'm having trouble connecting right now. Please try again.''"

definition routes_timeout_text :: string where
  "routes_timeout_text = ''The request took too long. Please try again.''"

text \<open>The strings of the serverless function.\<close>

definition netlify_auth_text :: string where
  "netlify_auth_text = ''Sorry, there's an authentication issue with the AI service. Please check your API key configuration.''"

definition netlify_not_configured_text :: string where
  "netlify_not_configured_text = ''Sorry, the AI service is not configured. Please set up your PERPLEXITY_API_KEY in Netlify environment variables.''"

definition netlify_empty_response_text :: string where
  "netlify_empty_response_text = ''Sorry, I received an empty response. Please try again.''"

definition netlify_timeout_text :: string where
  "netlify_timeout_text = ''Sorry, that request took too long. Please try asking again.''"

definition netlify_connect_text :: string where
  "netlify_connect_text = ''Sorry, I'm having trouble connecting to the AI service. Please check your internet connection.''"

definition netlify_unexpected_text :: string where
  "netlify_unexpected_text = ''Sorry, an unexpected error occurred. Please try again.''"

text \<open>
  The message array of a completion request: the system prompt, then the last \<open>n\<close>
  messages of the history, each reduced to its role and content.
\<close>

definition perplexityMessages :: "int \<Rightarrow> Message list \<Rightarrow> PerplexityMessage list" where
  "perplexityMessages n msgs =
     (let recentMessages = slice_from (- n) msgs
      in \<lparr>p_role = ''system'', p_content = system_prompt\<rparr>
         # map (\<lambda>msg. \<lparr>p_role = role msg, p_content = content msg\<rparr>) recentMessages)"

definition completion_request :: "string \<Rightarrow> PerplexityMessage list \<Rightarrow> nat \<Rightarrow> fetch_request" where
  "completion_request key msgs ms =
     \<lparr>url = completions_url, authorization = ''Bearer '' @ key, model = ''sonar'',
      request_messages = msgs, return_images = False, return_related_questions = False,
      stream = False, abort_after_ms = ms\<rparr>"

section \<open>The storage module of the primary server\<close>

text \<open>
  Modelled from the spec: server/storage.ts, which server/routes.ts imports, is not among
  the sources. The store holds the rows of the \<^verbatim>\<open>chat_sessions\<close> and
  \<^verbatim>\<open>messages\<close> tables of shared/schema.ts, in insertion order, and counts the rows it
  has generated identifiers for.
\<close>

record storage =
  chatSessions :: "ChatSession list"
  messages :: "Message list"
  generated :: nat

text \<open>Modelled from the spec: \<^verbatim>\<open>getChatSession(id) -> ChatSession | absent\<close>.\<close>

definition getChatSession :: "storage \<Rightarrow> string \<Rightarrow> ChatSession option" where
  "getChatSession st sid = find (\<lambda>s. session_id s = sid) (chatSessions st)"

text \<open>
  Modelled from the spec: \<^verbatim>\<open>getMessagesBySessionId(id) -> ordered sequence of Message\<close>
  (chronological).
\<close>

definition getMessagesBySessionId :: "storage \<Rightarrow> string \<Rightarrow> Message list" where
  "getMessagesBySessionId st sid = filter (\<lambda>m. sessionId m = sid) (messages st)"

text \<open>
  Modelled from the spec: \<^verbatim>\<open>createMessage(sessionId, role, content) -> Message\<close>. The
  row gets a generated identifier and the current time (the column defaults of
  shared/schema.ts) and is returned as stored.
\<close>

definition createMessage :: "world \<Rightarrow> storage \<Rightarrow> string \<Rightarrow> string \<Rightarrow> string \<Rightarrow> Message \<times> storage" where
  "createMessage w st sid r c =
     (let m = \<lparr>msg_id = randomUUID w (generated st), sessionId = sid, role = r, content = c,
               timestamp = clock w (generated st)\<rparr>
      in (m, st\<lparr>messages := messages st @ [m], generated := Suc (generated st)\<rparr>))"

text \<open>
  Modelled from the spec: \<^verbatim>\<open>deleteChatSession(id) -> void\<close> removes the session and
  all its messages.
\<close>

definition deleteChatSession :: "storage \<Rightarrow> string \<Rightarrow> storage" where
  "deleteChatSession st sid =
     st\<lparr>chatSessions := filter (\<lambda>s. session_id s \<noteq> sid) (chatSessions st),
        messages := filter (\<lambda>m. sessionId m \<noteq> sid) (messages st)\<rparr>"

section \<open>The primary server (server/routes.ts)\<close>

text \<open>
  \<^verbatim>\<open>chatMessageSchema.parse(req.body)\<close>: the body's \<^verbatim>\<open>content\<close> must be a string of
  length at least 1; otherwise a ZodError is thrown, here \<open>Inl\<close> with its message. The
  body is given by its \<^verbatim>\<open>content\<close> field, \<open>None\<close> when the field is missing.
\<close>

definition chatMessageSchema_parse :: "string option \<Rightarrow> string + string" where
  "chatMessageSchema_parse req_body =
     (case req_body of
        None \<Rightarrow> Inl ''Required''
      | Some c \<Rightarrow> if 1 \<le> length c then Inr c else Inl ''Message content is required'')"

text \<open>GET /api/chat/sessions/:sessionId/messages\<close>

definition routes_get_messages :: "storage \<Rightarrow> string \<Rightarrow> storage outcome" where
  "routes_get_messages st sid =
     (case getChatSession st sid of
        None \<Rightarrow> respond 404 (ErrorBody ''Session not found'') st []
      | Some session \<Rightarrow> respond 200 (MessagesBody (getMessagesBySessionId st sid)) st [])"

text \<open>The text chosen for a response of the upstream API that is not ok.\<close>

definition routes_errorContent :: "nat \<Rightarrow> string" where
  "routes_errorContent code =
     (if code = 401 then routes_auth_text
      else if code = 429 then rate_limit_text
      else if code = 400 then routes_bad_request_text
      else knowledge_base_text)"

text \<open>The inner \<^verbatim>\<open>catch (fetchError)\<close>: the text is stored and sent back.\<close>

definition routes_fetchError :: "world \<Rightarrow> storage \<Rightarrow> string \<Rightarrow> fetch_request list \<Rightarrow> js_error \<Rightarrow> storage outcome" where
  "routes_fetchError w st sid reqs fetchError =
     (let errorContent = (if error_name fetchError = ''AbortError'' then routes_timeout_text
                          else routes_connect_text);
          (errorMessage, st') = createMessage w st sid ''assistant'' errorContent
      in respond 200 (ChatResponse (content errorMessage) sid) st' reqs)"

text \<open>
  POST /api/chat/sessions/:sessionId/messages. \<open>api_key\<close> is
  \<^verbatim>\<open>process.env.PERPLEXITY_API_KEY\<close> and \<open>fetch\<close> the behaviour of the upstream API.
  Reading \<^verbatim>\<open>choices[0]\<close> of a body without \<^verbatim>\<open>choices\<close> throws a TypeError, which
  the inner catch handles like a rejected fetch.
\<close>

definition routes_post_message ::
  "world \<Rightarrow> string option \<Rightarrow> (fetch_request \<Rightarrow> fetch_outcome) \<Rightarrow> storage \<Rightarrow> string \<Rightarrow> string option
   \<Rightarrow> storage outcome" where
  "routes_post_message w api_key fetch st sid req_body =
     (case chatMessageSchema_parse req_body of
        Inl zodError \<Rightarrow> respond 500 (ErrorBody ''Failed to process message'') st []
      | Inr c \<Rightarrow>
         (case getChatSession st sid of
            None \<Rightarrow> respond 404 (ErrorBody ''Session not found'') st []
          | Some session \<Rightarrow>
             (let (userMessage, st1) = createMessage w st sid ''user'' c;
                  msgs = getMessagesBySessionId st1 sid;
                  pmsgs = perplexityMessages 10 msgs
              in if \<not> truthy api_key then
                   (let (errorMessage, st2) =
                          createMessage w st1 sid ''assistant'' routes_not_configured_text
                    in respond 200 (ChatResponse (content errorMessage) sid) st2 [])
                 else
                   (let req = completion_request (case api_key of None \<Rightarrow> [] | Some k \<Rightarrow> k) pmsgs 30000
                    in case fetch req of
                         Rejected fetchError \<Rightarrow> routes_fetchError w st1 sid [req] fetchError
                       | Resolved code rbody \<Rightarrow>
                           if \<not> response_ok code then
                             (let (errorMessage, st2) =
                                    createMessage w st1 sid ''assistant'' (routes_errorContent code)
                              in respond 200 (ChatResponse (content errorMessage) sid) st2 [req])
                           else
                             (case rbody of
                                NotJson e \<Rightarrow> routes_fetchError w st1 sid [req] e
                              | Json None \<Rightarrow>
                                  routes_fetchError w st1 sid [req]
                                    (JsError ''TypeError'' ''Cannot read properties of undefined'')
                              | Json (Some choices) \<Rightarrow>
                                  (let aiMessage = first_content choices
                                   in if \<not> truthy aiMessage then
                                        (let (errorMessage, st2) =
                                               createMessage w st1 sid ''assistant''
                                                 routes_invalid_response_text
                                         in respond 200 (ChatResponse (content errorMessage) sid) st2 [req])
                                      else
                                        (let text = (case aiMessage of None \<Rightarrow> [] | Some t \<Rightarrow> t);
                                             (assistantMessage, st2) =
                                               createMessage w st1 sid ''assistant'' text
                                         in respond 200 (ChatResponse text sid) st2 [req])))))))"

text \<open>DELETE /api/chat/sessions/:sessionId\<close>

definition routes_delete_session :: "storage \<Rightarrow> string \<Rightarrow> storage outcome" where
  "routes_delete_session st sid =
     (case getChatSession st sid of
        None \<Rightarrow> respond 404 (ErrorBody ''Session not found'') st []
      | Some session \<Rightarrow>
          respond 200 (MessageBody ''Session deleted successfully'') (deleteChatSession st sid) [])"

section \<open>The serverless function (in-memory variant)\<close>

text \<open>
  The process-wide \<^verbatim>\<open>conversations\<close> map from session identifiers to message arrays,
  and the number of UUIDs drawn so far.
\<close>

record netlify_state =
  conversations :: "string \<rightharpoonup> Message list"
  uuids_drawn :: nat

text \<open>\<^verbatim>\<open>const PERPLEXITY_API_KEY = process.env.PERPLEXITY_API_KEY || ""\<close>\<close>

definition netlify_api_key :: "string option \<Rightarrow> string" where
  "netlify_api_key env_key = (if truthy env_key then (case env_key of None \<Rightarrow> [] | Some k \<Rightarrow> k) else [])"

text \<open>POST /api/chat/sessions; \<open>req_title\<close> is \<^verbatim>\<open>req.body.title\<close>.\<close>

definition netlify_create_session :: "world \<Rightarrow> netlify_state \<Rightarrow> string option \<Rightarrow> netlify_state outcome" where
  "netlify_create_session w st req_title =
     (let new_id = randomUUID w (uuids_drawn st);
          session = \<lparr>session_id = new_id,
                     userId = ''default-user'',
                     title = (if truthy req_title then req_title else Some ''New Chat''),
                     createdAt = clock w (uuids_drawn st),
                     updatedAt = clock w (uuids_drawn st)\<rparr>
      in respond 200 (SessionBody session)
           (st\<lparr>conversations := (conversations st)(new_id \<mapsto> []),
               uuids_drawn := Suc (uuids_drawn st)\<rparr>) [])"

text \<open>GET /api/chat/sessions\<close>

definition netlify_get_sessions :: "netlify_state \<Rightarrow> netlify_state outcome" where
  "netlify_get_sessions st = respond 200 (SessionsBody []) st []"

text \<open>GET /api/chat/sessions/:sessionId/messages\<close>

definition netlify_get_messages :: "world \<Rightarrow> netlify_state \<Rightarrow> string \<Rightarrow> netlify_state outcome" where
  "netlify_get_messages w st sid =
     (let sessionMessages = conversations st sid
      in if sessionMessages = None \<or> sessionMessages = Some [] then
           (let greetingMessage =
                  \<lparr>msg_id = randomUUID w (uuids_drawn st), sessionId = sid, role = ''assistant'',
                   content = greeting_text, timestamp = clock w (uuids_drawn st)\<rparr>
            in respond 200 (MessagesBody [greetingMessage])
                 (st\<lparr>conversations := (conversations st)(sid \<mapsto> [greetingMessage]),
                     uuids_drawn := Suc (uuids_drawn st)\<rparr>) [])
         else respond 200 (MessagesBody (case sessionMessages of None \<Rightarrow> [] | Some ms \<Rightarrow> ms)) st [])"

text \<open>The \<^verbatim>\<open>catch (apiError)\<close> around the upstream call.\<close>

definition netlify_apiError :: "js_error \<Rightarrow> string" where
  "netlify_apiError apiError =
     (if error_name apiError = ''AbortError'' then netlify_timeout_text
      else if includes_str (error_message apiError) ''fetch'' then netlify_connect_text
      else netlify_unexpected_text)"

text \<open>
  The assistant's text for a history that already ends with the user's message, with
  the requests sent upstream to obtain it.
\<close>

definition netlify_aiResponse ::
  "string \<Rightarrow> (fetch_request \<Rightarrow> fetch_outcome) \<Rightarrow> Message list \<Rightarrow> string \<times> fetch_request list" where
  "netlify_aiResponse key fetch sessionMessages =
     (if key = [] \<or> length key < 10 then (netlify_not_configured_text, [])
      else
        (let req = completion_request key (perplexityMessages 8 sessionMessages) 25000
         in (case fetch req of
               Rejected apiError \<Rightarrow> netlify_apiError apiError
             | Resolved code rbody \<Rightarrow>
                 if response_ok code then
                   (case rbody of
                      NotJson e \<Rightarrow> netlify_apiError e
                    | Json choices \<Rightarrow>
                        (let aiResponse = (case choices of None \<Rightarrow> None | Some cs \<Rightarrow> first_content cs)
                         in if \<not> truthy aiResponse then netlify_empty_response_text
                            else (case aiResponse of None \<Rightarrow> [] | Some t \<Rightarrow> t)))
                 else if code = 401 then netlify_auth_text
                 else if code = 429 then rate_limit_text
                 else knowledge_base_text,
             [req])))"

text \<open>
  POST /api/chat/sessions/:sessionId/messages. \<^verbatim>\<open>req.body.content\<close> is \<open>None\<close> when
  the field is missing. The array of an existing conversation is extended in place and
  stored again at the end; the model returns the map as it is after the handler.
\<close>

definition netlify_post_message ::
  "world \<Rightarrow> string option \<Rightarrow> (fetch_request \<Rightarrow> fetch_outcome) \<Rightarrow> netlify_state \<Rightarrow> string \<Rightarrow> string option
   \<Rightarrow> netlify_state outcome" where
  "netlify_post_message w env_key fetch st sid req_content =
     (if \<not> truthy req_content then respond 400 (ErrorBody ''Message content is required'') st []
      else
        (let c = (case req_content of None \<Rightarrow> [] | Some s \<Rightarrow> s);
             sessionMessages = (case conversations st sid of None \<Rightarrow> [] | Some ms \<Rightarrow> ms);
             userMessage = \<lparr>msg_id = randomUUID w (uuids_drawn st), sessionId = sid, role = ''user'',
                            content = c, timestamp = clock w (uuids_drawn st)\<rparr>;
             sessionMessages1 = sessionMessages @ [userMessage];
             (aiResponse, reqs) = netlify_aiResponse (netlify_api_key env_key) fetch sessionMessages1;
             aiMessage = \<lparr>msg_id = randomUUID w (Suc (uuids_drawn st)), sessionId = sid,
                          role = ''assistant'', content = aiResponse,
                          timestamp = clock w (Suc (uuids_drawn st))\<rparr>;
             sessionMessages2 = sessionMessages1 @ [aiMessage]
         in respond 200 (ChatResponse aiResponse sid)
              (st\<lparr>conversations := (conversations st)(sid \<mapsto> sessionMessages2),
                  uuids_drawn := Suc (Suc (uuids_drawn st))\<rparr>) reqs))"

text \<open>DELETE /api/chat/sessions/:sessionId\<close>

definition netlify_delete_session :: "netlify_state \<Rightarrow> string \<Rightarrow> netlify_state outcome" where
  "netlify_delete_session st sid =
     respond 200 (MessageBody ''Session deleted successfully'')
       (st\<lparr>conversations := (conversations st)(sid := None)\<rparr>) []"

section \<open>Sample environments\<close>

text \<open>
  Concrete inputs for the examples below: a source of identifiers and a clock, a store of
  the primary server holding one session without messages, the empty map of the
  serverless function, a credential, and three behaviours of the upstream API.
\<close>

definition sample_uuid :: "nat \<Rightarrow> string" where
  "sample_uuid n = replicate (Suc n) (CHR ''u'')"

definition sample_world :: world where
  "sample_world = \<lparr>randomUUID = sample_uuid, clock = Suc\<rparr>"

definition sample_session :: ChatSession where
  "sample_session =
     \<lparr>session_id = ''s1'', userId = ''default-user'', title = Some ''New Chat'',
      createdAt = 0, updatedAt = 0\<rparr>"

definition sample_storage :: storage where
  "sample_storage = \<lparr>chatSessions = [sample_session], messages = [], generated = 0\<rparr>"

definition empty_state :: netlify_state where
  "empty_state = \<lparr>conversations = Map.empty, uuids_drawn = 0\<rparr>"

definition sample_message :: Message where
  "sample_message =
     \<lparr>msg_id = ''m'', sessionId = ''s1'', role = ''user'', content = ''hello'', timestamp = 0\<rparr>"

definition busy_storage :: storage where
  "busy_storage =
     \<lparr>chatSessions = [sample_session], messages = replicate 10 sample_message, generated = 10\<rparr>"

definition busy_state :: netlify_state where
  "busy_state =
     \<lparr>conversations = [''s1'' \<mapsto> replicate 10 sample_message], uuids_drawn = 10\<rparr>"

definition sample_key :: string where
  "sample_key = ''pplx-0123456789''"

definition upstream_status :: "nat \<Rightarrow> fetch_request \<Rightarrow> fetch_outcome" where
  "upstream_status code req = Resolved code (Json None)"

definition upstream_timeout :: "fetch_request \<Rightarrow> fetch_outcome" where
  "upstream_timeout req = Rejected (JsError ''AbortError'' ''This operation was aborted'')"

definition upstream_reply :: "string \<Rightarrow> fetch_request \<Rightarrow> fetch_outcome" where
  "upstream_reply t req = Resolved 200 (Json (Some [Some t]))"

section \<open>Auxiliary facts\<close>

lemma slice_from_neg: "0 < n \<Longrightarrow> slice_from (- int n) xs = drop (length xs - n) xs"
  by (simp add: slice_from_def Let_def nat_diff_distrib' max_def)

lemma slice_from_10: "slice_from (- 10) xs = drop (length xs - 10) xs"
  using slice_from_neg [of 10 xs] by simp

lemma slice_from_8: "slice_from (- 8) xs = drop (length xs - 8) xs"
  using slice_from_neg [of 8 xs] by simp

lemma createMessage_eq:
  "createMessage w st sid r c =
     (\<lparr>msg_id = randomUUID w (generated st), sessionId = sid, role = r, content = c,
       timestamp = clock w (generated st)\<rparr>,
      st\<lparr>messages := messages st @
            [\<lparr>msg_id = randomUUID w (generated st), sessionId = sid, role = r, content = c,
              timestamp = clock w (generated st)\<rparr>],
         generated := Suc (generated st)\<rparr>)"
  by (simp add: createMessage_def Let_def)

lemma chatMessageSchema_parse_Some:
  "chatMessageSchema_parse (Some c) = (if c = [] then Inl ''Message content is required'' else Inr c)"
  by (cases c) (simp_all add: chatMessageSchema_parse_def)

lemma getMessages_after_create:
  "getMessagesBySessionId (snd (createMessage w st sid r c)) sid =
     getMessagesBySessionId st sid @ [fst (createMessage w st sid r c)]"
  by (simp add: createMessage_eq getMessagesBySessionId_def)

lemma perplexityMessages_10:
  "perplexityMessages 10 h =
     \<lparr>p_role = ''system'', p_content = system_prompt\<rparr>
       # map (\<lambda>msg. \<lparr>p_role = role msg, p_content = content msg\<rparr>) (drop (length h - 10) h)"
  by (simp add: perplexityMessages_def slice_from_10 Let_def)

lemma perplexityMessages_8:
  "perplexityMessages 8 h =
     \<lparr>p_role = ''system'', p_content = system_prompt\<rparr>
       # map (\<lambda>msg. \<lparr>p_role = role msg, p_content = content msg\<rparr>) (drop (length h - 8) h)"
  by (simp add: perplexityMessages_def slice_from_8 Let_def)

lemma routes_post_fetched:
  assumes "c \<noteq> []" "getChatSession st sid = Some s" "k \<noteq> []"
  shows "fetched (routes_post_message w (Some k) fetch st sid (Some c)) =
     [completion_request k (perplexityMessages 10
         (getMessagesBySessionId st sid @
           [\<lparr>msg_id = randomUUID w (generated st), sessionId = sid, role = ''user'', content = c,
             timestamp = clock w (generated st)\<rparr>])) 30000]"
  using assms
  unfolding routes_post_message_def routes_fetchError_def
  by (auto simp: createMessage_eq respond_def Let_def truthy_def chatMessageSchema_parse_Some getMessagesBySessionId_def
      split: sum.splits option.splits fetch_outcome.splits response_body.splits if_splits)

lemma netlify_post_fetched:
  assumes "c \<noteq> []" "10 \<le> length k"
  shows "fetched (netlify_post_message w (Some k) fetch st sid (Some c)) =
     [completion_request k (perplexityMessages 8
         ((case conversations st sid of None \<Rightarrow> [] | Some ms \<Rightarrow> ms) @
           [\<lparr>msg_id = randomUUID w (uuids_drawn st), sessionId = sid, role = ''user'', content = c,
             timestamp = clock w (uuids_drawn st)\<rparr>])) 25000]"
  using assms
  unfolding netlify_post_message_def netlify_aiResponse_def
  by (auto simp: respond_def Let_def truthy_def netlify_api_key_def
      split: sum.splits option.splits fetch_outcome.splits response_body.splits if_splits prod.splits)

lemma netlify_post_200:
  assumes "status (netlify_post_message w key fetch st sid b) = 200"
  shows "\<exists>u a. conversations (store (netlify_post_message w key fetch st sid b)) sid
          = Some ((case conversations st sid of None \<Rightarrow> [] | Some ms \<Rightarrow> ms) @ [u, a])
     \<and> role a = ''assistant'' \<and> sessionId a = sid
     \<and> body (netlify_post_message w key fetch st sid b) = ChatResponse (content a) sid"
  using assms
  unfolding netlify_post_message_def
  by (auto simp: respond_def Let_def split: if_splits prod.splits)

lemma routes_strings_distinct:
  "distinct [routes_auth_text, rate_limit_text, routes_bad_request_text, knowledge_base_text]"
  by (simp add: routes_auth_text_def rate_limit_text_def routes_bad_request_text_def knowledge_base_text_def)

lemma netlify_strings_distinct:
  "distinct [netlify_auth_text, rate_limit_text, knowledge_base_text]"
  by (simp add: netlify_auth_text_def rate_limit_text_def knowledge_base_text_def)

lemma routes_post_not_ok:
  assumes "fetched (routes_post_message w key fetch st sid b) = [req]"
    and "fetch req = Resolved code rb" and "\<not> response_ok code"
  shows "status (routes_post_message w key fetch st sid b) = 200
     \<and> body (routes_post_message w key fetch st sid b) = ChatResponse (routes_errorContent code) sid
     \<and> (\<exists>u a. messages (store (routes_post_message w key fetch st sid b)) = messages st @ [u, a]
           \<and> sessionId a = sid \<and> role a = ''assistant'' \<and> content a = routes_errorContent code)"
  using assms
  unfolding routes_post_message_def routes_fetchError_def
  by (auto simp: createMessage_eq respond_def Let_def
      split: sum.splits option.splits fetch_outcome.splits response_body.splits if_splits)

lemma routes_post_aborted:
  assumes "fetched (routes_post_message w key fetch st sid b) = [req]"
    and "fetch req = Rejected e" and "error_name e = ''AbortError''"
  shows "abort_after_ms req = 30000 \<and> status (routes_post_message w key fetch st sid b) = 200
     \<and> body (routes_post_message w key fetch st sid b) = ChatResponse routes_timeout_text sid
     \<and> (\<exists>u a. messages (store (routes_post_message w key fetch st sid b)) = messages st @ [u, a]
           \<and> sessionId a = sid \<and> role a = ''assistant'' \<and> content a = routes_timeout_text)"
  using assms
  unfolding routes_post_message_def routes_fetchError_def
  by (auto simp: createMessage_eq respond_def Let_def completion_request_def
      split: sum.splits option.splits fetch_outcome.splits response_body.splits if_splits)

lemma netlify_post_not_ok:
  assumes "fetched (netlify_post_message w key fetch st sid b) = [req]"
    and "fetch req = Resolved code rb" and "\<not> response_ok code"
  shows "status (netlify_post_message w key fetch st sid b) = 200
     \<and> body (netlify_post_message w key fetch st sid b)
         = ChatResponse (if code = 401 then netlify_auth_text
                         else if code = 429 then rate_limit_text else knowledge_base_text) sid
     \<and> (\<exists>u a. conversations (store (netlify_post_message w key fetch st sid b)) sid
            = Some ((case conversations st sid of None \<Rightarrow> [] | Some ms \<Rightarrow> ms) @ [u, a])
           \<and> sessionId a = sid \<and> role a = ''assistant''
           \<and> content a = (if code = 401 then netlify_auth_text
                         else if code = 429 then rate_limit_text else knowledge_base_text))"
  using assms
  unfolding netlify_post_message_def netlify_aiResponse_def
  by (auto simp: respond_def Let_def
      split: sum.splits option.splits fetch_outcome.splits response_body.splits if_splits prod.splits)

lemma netlify_post_aborted:
  assumes "fetched (netlify_post_message w key fetch st sid b) = [req]"
    and "fetch req = Rejected e" and "error_name e = ''AbortError''"
  shows "abort_after_ms req = 25000 \<and> status (netlify_post_message w key fetch st sid b) = 200
     \<and> body (netlify_post_message w key fetch st sid b) = ChatResponse netlify_timeout_text sid
     \<and> (\<exists>u a. conversations (store (netlify_post_message w key fetch st sid b)) sid
            = Some ((case conversations st sid of None \<Rightarrow> [] | Some ms \<Rightarrow> ms) @ [u, a])
           \<and> sessionId a = sid \<and> role a = ''assistant'' \<and> content a = netlify_timeout_text)"
  using assms
  unfolding netlify_post_message_def netlify_aiResponse_def
  by (auto simp: respond_def Let_def completion_request_def netlify_apiError_def
      split: sum.splits option.splits fetch_outcome.splits response_body.splits if_splits prod.splits)

lemma routes_post_unconfigured:
  assumes "\<not> truthy key"
  shows "fetched (routes_post_message w key fetch st sid b) = []"
  using assms
  unfolding routes_post_message_def
  by (auto simp: createMessage_eq respond_def Let_def split: sum.splits option.splits)

lemma routes_post_unconfigured_valid:
  assumes "\<not> truthy key" "c \<noteq> []" "getChatSession st sid = Some s"
  shows "status (routes_post_message w key fetch st sid (Some c)) = 200
     \<and> body (routes_post_message w key fetch st sid (Some c)) = ChatResponse routes_not_configured_text sid
     \<and> (\<exists>u a. messages (store (routes_post_message w key fetch st sid (Some c))) = messages st @ [u, a]
           \<and> sessionId a = sid \<and> role a = ''assistant'' \<and> content a = routes_not_configured_text)"
  using assms
  unfolding routes_post_message_def
  by (auto simp: createMessage_eq respond_def Let_def chatMessageSchema_parse_Some split: sum.splits option.splits)

lemma netlify_post_unconfigured:
  assumes "\<not> truthy key"
  shows "fetched (netlify_post_message w key fetch st sid b) = []"
  using assms
  unfolding netlify_post_message_def netlify_aiResponse_def
  by (auto simp: respond_def Let_def netlify_api_key_def split: prod.splits)

lemma netlify_post_unconfigured_valid:
  assumes "\<not> truthy key" "c \<noteq> []"
  shows "status (netlify_post_message w key fetch st sid (Some c)) = 200
     \<and> body (netlify_post_message w key fetch st sid (Some c)) = ChatResponse netlify_not_configured_text sid
     \<and> (\<exists>u a. conversations (store (netlify_post_message w key fetch st sid (Some c))) sid
            = Some ((case conversations st sid of None \<Rightarrow> [] | Some ms \<Rightarrow> ms) @ [u, a])
           \<and> sessionId a = sid \<and> role a = ''assistant'' \<and> content a = netlify_not_configured_text)"
  using assms
  unfolding netlify_post_message_def netlify_aiResponse_def
  by (auto simp: respond_def Let_def netlify_api_key_def truthy_def split: prod.splits)

lemma routes_post_absent:
  assumes "c \<noteq> []" "getChatSession st sid = None"
  shows "routes_post_message w key fetch st sid (Some c) = respond 404 (ErrorBody ''Session not found'') st []"
  using assms by (simp add: routes_post_message_def chatMessageSchema_parse_Some)

lemma netlify_post_absent:
  assumes "c \<noteq> []" "conversations st sid = None"
  shows "status (netlify_post_message w key fetch st sid (Some c)) = 200
     \<and> (\<exists>u a. conversations (store (netlify_post_message w key fetch st sid (Some c))) sid = Some [u, a]
           \<and> role u = ''user'' \<and> content u = c \<and> role a = ''assistant'')"
  using assms
  unfolding netlify_post_message_def
  by (auto simp: respond_def Let_def truthy_def split: prod.splits)

lemma find_filter_neg: "find P (filter (\<lambda>x. \<not> P x) xs) = None"
  by (induction xs) auto

lemma getChatSession_deleted: "getChatSession (deleteChatSession st sid) sid = None"
  using find_filter_neg [of "\<lambda>s. session_id s = sid" "chatSessions st"]
  by (simp add: getChatSession_def deleteChatSession_def)

lemma getMessages_deleted: "getMessagesBySessionId (deleteChatSession st sid) sid = []"
  by (simp add: getMessagesBySessionId_def deleteChatSession_def)

lemma getMessages_deleted_other:
  "sid' \<noteq> sid \<Longrightarrow> getMessagesBySessionId (deleteChatSession st sid) sid' = getMessagesBySessionId st sid'"
  by (auto simp: getMessagesBySessionId_def deleteChatSession_def intro: filter_cong)

lemma netlify_get_seed:
  assumes "conversations st sid = None \<or> conversations st sid = Some []"
  shows "netlify_get_messages w st sid =
     respond 200
       (MessagesBody [\<lparr>msg_id = randomUUID w (uuids_drawn st), sessionId = sid, role = ''assistant'',
                       content = greeting_text, timestamp = clock w (uuids_drawn st)\<rparr>])
       (st\<lparr>conversations := (conversations st)(sid \<mapsto>
              [\<lparr>msg_id = randomUUID w (uuids_drawn st), sessionId = sid, role = ''assistant'',
                content = greeting_text, timestamp = clock w (uuids_drawn st)\<rparr>]),
           uuids_drawn := Suc (uuids_drawn st)\<rparr>) []"
  using assms by (auto simp: netlify_get_messages_def Let_def)

lemma netlify_get_stored:
  assumes "conversations st sid = Some ms" "ms \<noteq> []"
  shows "netlify_get_messages w st sid = respond 200 (MessagesBody ms) st []"
  using assms by (simp add: netlify_get_messages_def Let_def)

lemma routes_post_200:
  assumes "status (routes_post_message w key fetch st sid b) = 200"
  shows "\<exists>u a. messages (store (routes_post_message w key fetch st sid b)) = messages st @ [u, a]
     \<and> role a = ''assistant'' \<and> sessionId a = sid
     \<and> body (routes_post_message w key fetch st sid b) = ChatResponse (content a) sid"
  using assms
  unfolding routes_post_message_def routes_fetchError_def
  by (auto simp: createMessage_eq respond_def Let_def truthy_def
      split: sum.splits option.splits fetch_outcome.splits response_body.splits if_splits)

section \<open>Posting a message\<close>

text \<open>
  C1. A request whose content is the empty string writes nothing and sends nothing
  upstream in either variant. The serverless function answers 400 with the error
  "Message content is required". The primary server answers 500 with the error "Failed to
  process message": the ZodError of the schema is caught by the handler's outer catch.
\<close>

theorem empty_content_rejected:
  "status (routes_post_message w key fetch st sid (Some [])) = 500
   \<and> body (routes_post_message w key fetch st sid (Some [])) = ErrorBody ''Failed to process message''
   \<and> store (routes_post_message w key fetch st sid (Some [])) = st
   \<and> fetched (routes_post_message w key fetch st sid (Some [])) = []
   \<and> status (netlify_post_message w key fetch nst sid (Some [])) = 400
   \<and> body (netlify_post_message w key fetch nst sid (Some [])) = ErrorBody ''Message content is required''
   \<and> store (netlify_post_message w key fetch nst sid (Some [])) = nst
   \<and> fetched (netlify_post_message w key fetch nst sid (Some [])) = []"
  by (simp add: routes_post_message_def netlify_post_message_def chatMessageSchema_parse_def
      truthy_def respond_def)

text \<open>
  C3, in the serverless function. The identifier nope has no conversation. Posting the
  content "hi" to it is answered 200, and afterwards the map holds a conversation for it
  with the user's message and the assistant's message: the handler gets or initialises the
  conversation and never looks the session up.
\<close>

theorem netlify_post_unknown_session:
  "conversations empty_state ''nope'' = None
   \<and> status (netlify_post_message sample_world None upstream_timeout empty_state ''nope'' (Some ''hi'')) = 200
   \<and> map_option (map content)
        (conversations
          (store (netlify_post_message sample_world None upstream_timeout empty_state ''nope'' (Some ''hi'')))
          ''nope'')
       = Some [''hi'', netlify_not_configured_text]"
  by (simp add: netlify_post_message_def netlify_aiResponse_def netlify_api_key_def truthy_def
      respond_def empty_state_def Let_def)

text \<open>
  C3, as the code has it. In the primary server, posting a non-empty content to an
  identifier that the store has no session for is answered 404 "Session not found"; the
  store is unchanged and nothing is sent upstream. In the serverless function the same
  request, for an identifier without a conversation, is answered 200 and creates the
  conversation with exactly the user's message followed by the assistant's message.
\<close>

theorem post_to_absent_session:
  "(c \<noteq> [] \<and> getChatSession st sid = None \<longrightarrow>
      status (routes_post_message w key fetch st sid (Some c)) = 404
      \<and> body (routes_post_message w key fetch st sid (Some c)) = ErrorBody ''Session not found''
      \<and> store (routes_post_message w key fetch st sid (Some c)) = st
      \<and> fetched (routes_post_message w key fetch st sid (Some c)) = [])
   \<and> (c \<noteq> [] \<and> conversations nst sid = None \<longrightarrow>
      status (netlify_post_message w key fetch nst sid (Some c)) = 200
      \<and> (\<exists>u a. conversations (store (netlify_post_message w key fetch nst sid (Some c))) sid = Some [u, a]
            \<and> role u = ''user'' \<and> content u = c \<and> role a = ''assistant''))"
  using routes_post_absent [of c st sid w key fetch] netlify_post_absent [of c nst sid w key fetch]
  by (simp add: respond_def)

theorem post_to_absent_session_witness:
  "''hi'' \<noteq> [] \<and> getChatSession sample_storage ''nope'' = None
   \<and> status (routes_post_message sample_world None upstream_timeout sample_storage ''nope'' (Some ''hi'')) = 404
   \<and> store (routes_post_message sample_world None upstream_timeout sample_storage ''nope'' (Some ''hi''))
       = sample_storage
   \<and> conversations empty_state ''nope'' = None
   \<and> status (netlify_post_message sample_world None upstream_timeout empty_state ''nope'' (Some ''hi'')) = 200"
proof -
  have a: "getChatSession sample_storage ''nope'' = None"
    by (simp add: getChatSession_def sample_storage_def sample_session_def)
  have b: "conversations empty_state ''nope'' = None"
    by (simp add: empty_state_def)
  from post_to_absent_session [of "''hi''" sample_storage "''nope''" sample_world None upstream_timeout empty_state] a b
  show ?thesis by simp
qed

text \<open>
  C4. For every history \<open>h\<close> of length L, the message array built from it has
  1 + min L N entries: the system prompt, then the last N messages of \<open>h\<close> in
  their order, each with its role and content; N is 10 in the primary server and 8 in the
  serverless function. The array sent upstream by a post is the one built from the
  session's history as it is after the user's message has been added.
\<close>

theorem history_window:
  "length (perplexityMessages 10 h) = 1 + min (length h) 10
   \<and> perplexityMessages 10 h =
       \<lparr>p_role = ''system'', p_content = system_prompt\<rparr>
         # map (\<lambda>msg. \<lparr>p_role = role msg, p_content = content msg\<rparr>) (drop (length h - 10) h)
   \<and> length (perplexityMessages 8 h) = 1 + min (length h) 8
   \<and> perplexityMessages 8 h =
       \<lparr>p_role = ''system'', p_content = system_prompt\<rparr>
         # map (\<lambda>msg. \<lparr>p_role = role msg, p_content = content msg\<rparr>) (drop (length h - 8) h)
   \<and> (c \<noteq> [] \<and> getChatSession st sid = Some s \<and> k \<noteq> [] \<longrightarrow>
        map request_messages (fetched (routes_post_message w (Some k) fetch st sid (Some c))) =
          [perplexityMessages 10
            (getMessagesBySessionId st sid @
              [\<lparr>msg_id = randomUUID w (generated st), sessionId = sid, role = ''user'', content = c,
                timestamp = clock w (generated st)\<rparr>])])
   \<and> (c \<noteq> [] \<and> 10 \<le> length k \<longrightarrow>
        map request_messages (fetched (netlify_post_message w (Some k) fetch nst sid (Some c))) =
          [perplexityMessages 8
            ((case conversations nst sid of None \<Rightarrow> [] | Some ms \<Rightarrow> ms) @
              [\<lparr>msg_id = randomUUID w (uuids_drawn nst), sessionId = sid, role = ''user'', content = c,
                timestamp = clock w (uuids_drawn nst)\<rparr>])])"
proof (intro conjI impI)
  show "length (perplexityMessages 10 h) = 1 + min (length h) 10"
    by (simp add: perplexityMessages_10 min_def)
  show "length (perplexityMessages 8 h) = 1 + min (length h) 8"
    by (simp add: perplexityMessages_8 min_def)
  show "perplexityMessages 10 h =
       \<lparr>p_role = ''system'', p_content = system_prompt\<rparr>
         # map (\<lambda>msg. \<lparr>p_role = role msg, p_content = content msg\<rparr>) (drop (length h - 10) h)"
    by (rule perplexityMessages_10)
  show "perplexityMessages 8 h =
       \<lparr>p_role = ''system'', p_content = system_prompt\<rparr>
         # map (\<lambda>msg. \<lparr>p_role = role msg, p_content = content msg\<rparr>) (drop (length h - 8) h)"
    by (rule perplexityMessages_8)
next
  assume "c \<noteq> [] \<and> getChatSession st sid = Some s \<and> k \<noteq> []"
  then show "map request_messages (fetched (routes_post_message w (Some k) fetch st sid (Some c))) =
          [perplexityMessages 10
            (getMessagesBySessionId st sid @
              [\<lparr>msg_id = randomUUID w (generated st), sessionId = sid, role = ''user'', content = c,
                timestamp = clock w (generated st)\<rparr>])]"
    using routes_post_fetched [of c st sid s k w fetch] by (simp add: completion_request_def)
next
  assume "c \<noteq> [] \<and> 10 \<le> length k"
  then show "map request_messages (fetched (netlify_post_message w (Some k) fetch nst sid (Some c))) =
          [perplexityMessages 8
            ((case conversations nst sid of None \<Rightarrow> [] | Some ms \<Rightarrow> ms) @
              [\<lparr>msg_id = randomUUID w (uuids_drawn nst), sessionId = sid, role = ''user'', content = c,
                timestamp = clock w (uuids_drawn nst)\<rparr>])]"
    using netlify_post_fetched [of c k w fetch nst sid] by (simp add: completion_request_def)
qed

theorem history_window_witness:
  "''hi'' \<noteq> [] \<and> getChatSession busy_storage ''s1'' = Some sample_session \<and> sample_key \<noteq> []
   \<and> 10 \<le> length sample_key
   \<and> length (getMessagesBySessionId busy_storage ''s1'') = 10
   \<and> map (\<lambda>r. length (request_messages r))
        (fetched (routes_post_message sample_world (Some sample_key) upstream_timeout busy_storage ''s1''
           (Some ''hi''))) = [11]
   \<and> conversations busy_state ''s1'' = Some (replicate 10 sample_message)
   \<and> map (\<lambda>r. length (request_messages r))
        (fetched (netlify_post_message sample_world (Some sample_key) upstream_timeout busy_state ''s1''
           (Some ''hi''))) = [9]"
proof -
  have a: "getChatSession busy_storage ''s1'' = Some sample_session"
    by (simp add: getChatSession_def busy_storage_def sample_session_def)
  have b: "sample_key \<noteq> []" "10 \<le> length sample_key"
    by (simp_all add: sample_key_def)
  have c: "getMessagesBySessionId busy_storage ''s1'' = replicate 10 sample_message"
    by (simp add: getMessagesBySessionId_def busy_storage_def sample_message_def)
  have d: "conversations busy_state ''s1'' = Some (replicate 10 sample_message)"
    by (simp add: busy_state_def)
  let ?u = "\<lparr>msg_id = randomUUID sample_world (generated busy_storage), sessionId = ''s1'',
              role = ''user'', content = ''hi'', timestamp = clock sample_world (generated busy_storage)\<rparr>"
  let ?v = "\<lparr>msg_id = randomUUID sample_world (uuids_drawn busy_state), sessionId = ''s1'',
              role = ''user'', content = ''hi'', timestamp = clock sample_world (uuids_drawn busy_state)\<rparr>"
  have w1: "length (perplexityMessages 10 (replicate 10 sample_message @ [?u])) = 11"
    using history_window [where h = "replicate 10 sample_message @ [?u]"] by simp
  have w2: "length (perplexityMessages 8 (replicate 10 sample_message @ [?v])) = 9"
    using history_window [where h = "replicate 10 sample_message @ [?v]"] by simp
  have r1: "map request_messages
        (fetched (routes_post_message sample_world (Some sample_key) upstream_timeout busy_storage ''s1''
           (Some ''hi''))) = [perplexityMessages 10 (replicate 10 sample_message @ [?u])]"
    using history_window [where c = "''hi''" and st = busy_storage and sid = "''s1''"
        and s = sample_session and k = sample_key and w = sample_world and fetch = upstream_timeout]
      a b c by simp
  have r2: "map request_messages
        (fetched (netlify_post_message sample_world (Some sample_key) upstream_timeout busy_state ''s1''
           (Some ''hi''))) = [perplexityMessages 8 (replicate 10 sample_message @ [?v])]"
    using history_window [where c = "''hi''" and sid = "''s1''" and k = sample_key
        and w = sample_world and fetch = upstream_timeout and nst = busy_state]
      b d by simp
  have l1: "map (\<lambda>r. length (request_messages r))
        (fetched (routes_post_message sample_world (Some sample_key) upstream_timeout busy_storage ''s1''
           (Some ''hi''))) = [11]"
    using arg_cong [OF r1, of "map length"] w1 by (simp add: comp_def)
  have l2: "map (\<lambda>r. length (request_messages r))
        (fetched (netlify_post_message sample_world (Some sample_key) upstream_timeout busy_state ''s1''
           (Some ''hi''))) = [9]"
    using arg_cong [OF r2, of "map length"] w2 by (simp add: comp_def)
  show ?thesis using a b c d l1 l2 by simp
qed

text \<open>
  C5, in the serverless function. With a credential configured, an upstream answer
  with status 400 yields the same text as one with status 500, the generic one about the
  knowledge base: the function has no text of its own for 400.
\<close>

theorem netlify_status_400_generic:
  "\<not> response_ok 400 \<and> \<not> response_ok 500
   \<and> body (netlify_post_message sample_world (Some sample_key) (upstream_status 400) empty_state ''s1''
        (Some ''hi'')) = ChatResponse knowledge_base_text ''s1''
   \<and> body (netlify_post_message sample_world (Some sample_key) (upstream_status 500) empty_state ''s1''
        (Some ''hi'')) = ChatResponse knowledge_base_text ''s1''"
  by (simp add: netlify_post_message_def netlify_aiResponse_def netlify_api_key_def truthy_def
      respond_def empty_state_def sample_key_def upstream_status_def response_ok_def Let_def)

text \<open>
  C5, as the code has it. When the request was sent and the upstream answer has a
  status outside 200..299, the handler answers 200 and stores the text it returns as the
  last message of the session, with role assistant. The primary server has four pairwise
  different texts: for 401, for 429, for 400, and the generic one for every other status.
  The serverless function has three: for 401, for 429, and the generic one for every other
  status, 400 included.
\<close>

theorem upstream_error_texts:
  "(fetched (routes_post_message w key fetch st sid b) = [req] \<and> fetch req = Resolved code rb
      \<and> \<not> response_ok code \<longrightarrow>
      status (routes_post_message w key fetch st sid b) = 200
      \<and> body (routes_post_message w key fetch st sid b) = ChatResponse (routes_errorContent code) sid
      \<and> (\<exists>u a. messages (store (routes_post_message w key fetch st sid b)) = messages st @ [u, a]
            \<and> sessionId a = sid \<and> role a = ''assistant'' \<and> content a = routes_errorContent code))
   \<and> routes_errorContent 401 = routes_auth_text
   \<and> routes_errorContent 429 = rate_limit_text
   \<and> routes_errorContent 400 = routes_bad_request_text
   \<and> (other \<noteq> 401 \<and> other \<noteq> 429 \<and> other \<noteq> 400 \<longrightarrow>
        routes_errorContent other = knowledge_base_text)
   \<and> distinct [routes_auth_text, rate_limit_text, routes_bad_request_text, knowledge_base_text]
   \<and> (fetched (netlify_post_message w key fetch nst sid b) = [nreq] \<and> fetch nreq = Resolved code rb
      \<and> \<not> response_ok code \<longrightarrow>
      status (netlify_post_message w key fetch nst sid b) = 200
      \<and> body (netlify_post_message w key fetch nst sid b)
          = ChatResponse (if code = 401 then netlify_auth_text
                          else if code = 429 then rate_limit_text else knowledge_base_text) sid
      \<and> (\<exists>u a. conversations (store (netlify_post_message w key fetch nst sid b)) sid
             = Some ((case conversations nst sid of None \<Rightarrow> [] | Some ms \<Rightarrow> ms) @ [u, a])
            \<and> sessionId a = sid \<and> role a = ''assistant''
            \<and> content a = (if code = 401 then netlify_auth_text
                             else if code = 429 then rate_limit_text else knowledge_base_text)))
   \<and> distinct [netlify_auth_text, rate_limit_text, knowledge_base_text]"
proof -
  have texts: "routes_errorContent 401 = routes_auth_text" "routes_errorContent 429 = rate_limit_text"
    "routes_errorContent 400 = routes_bad_request_text"
    "other \<noteq> 401 \<and> other \<noteq> 429 \<and> other \<noteq> 400 \<longrightarrow>
       routes_errorContent other = knowledge_base_text"
    by (simp_all add: routes_errorContent_def)
  show ?thesis
    using routes_post_not_ok [of w key fetch st sid b req code rb]
      netlify_post_not_ok [of w key fetch nst sid b nreq code rb]
      routes_strings_distinct netlify_strings_distinct texts
    by blast
qed

theorem upstream_error_texts_witness:
  "fetched (routes_post_message sample_world (Some sample_key) (upstream_status 401) sample_storage ''s1''
      (Some ''hi''))
     = [completion_request sample_key
          (perplexityMessages 10
            [\<lparr>msg_id = sample_uuid 0, sessionId = ''s1'', role = ''user'', content = ''hi'',
              timestamp = Suc 0\<rparr>]) 30000]
   \<and> \<not> response_ok 401
   \<and> body (routes_post_message sample_world (Some sample_key) (upstream_status 401) sample_storage ''s1''
        (Some ''hi'')) = ChatResponse routes_auth_text ''s1''
   \<and> fetched (netlify_post_message sample_world (Some sample_key) (upstream_status 401) empty_state ''s1''
        (Some ''hi''))
     = [completion_request sample_key
          (perplexityMessages 8
            [\<lparr>msg_id = sample_uuid 0, sessionId = ''s1'', role = ''user'', content = ''hi'',
              timestamp = Suc 0\<rparr>]) 25000]
   \<and> body (netlify_post_message sample_world (Some sample_key) (upstream_status 401) empty_state ''s1''
        (Some ''hi'')) = ChatResponse netlify_auth_text ''s1''
   \<and> (503::nat) \<noteq> 401 \<and> (503::nat) \<noteq> 429 \<and> (503::nat) \<noteq> 400
   \<and> routes_errorContent 503 = knowledge_base_text"
proof -
  let ?u = "\<lparr>msg_id = sample_uuid 0, sessionId = ''s1'', role = ''user'', content = ''hi'',
              timestamp = Suc 0\<rparr>"
  have s: "getChatSession sample_storage ''s1'' = Some sample_session"
    by (simp add: getChatSession_def sample_storage_def sample_session_def)
  have k: "sample_key \<noteq> []" "10 \<le> length sample_key"
    by (simp_all add: sample_key_def)
  have f1: "fetched (routes_post_message sample_world (Some sample_key) (upstream_status 401)
        sample_storage ''s1'' (Some ''hi''))
      = [completion_request sample_key (perplexityMessages 10 [?u]) 30000]"
    using routes_post_fetched [of "''hi''" sample_storage "''s1''" sample_session sample_key sample_world
        "upstream_status 401"] s k
    by (simp add: getMessagesBySessionId_def sample_storage_def sample_world_def)
  have f2: "fetched (netlify_post_message sample_world (Some sample_key) (upstream_status 401)
        empty_state ''s1'' (Some ''hi''))
      = [completion_request sample_key (perplexityMessages 8 [?u]) 25000]"
    using netlify_post_fetched [of "''hi''" sample_key sample_world "upstream_status 401" empty_state "''s1''"] k
    by (simp add: empty_state_def sample_world_def)
  have r: "\<And>q. upstream_status 401 q = Resolved 401 (Json None)"
    by (simp add: upstream_status_def)
  have n: "\<not> response_ok 401"
    by (simp add: response_ok_def)
  from upstream_error_texts [where w = sample_world and key = "Some sample_key"
      and fetch = "upstream_status 401" and st = sample_storage and sid = "''s1''" and b = "Some ''hi''"
      and req = "completion_request sample_key (perplexityMessages 10 [?u]) 30000"
      and nreq = "completion_request sample_key (perplexityMessages 8 [?u]) 25000"
      and code = 401 and rb = "Json None" and nst = empty_state and other = 503] f1 f2 r n
  show ?thesis by simp
qed

text \<open>
  C6. When the request was sent and the call is rejected with an AbortError (the abort
  timer fired), the handler answers 200 with the fixed took-too-long text and stores that
  text as the last message of the session, with role assistant. The timer of the request
  is set to 30000 ms in the primary server and to 25000 ms in the serverless function.
\<close>

theorem upstream_timeout_stored:
  "(fetched (routes_post_message w key fetch st sid b) = [req] \<and> fetch req = Rejected e
      \<and> error_name e = ''AbortError'' \<longrightarrow>
      abort_after_ms req = 30000
      \<and> status (routes_post_message w key fetch st sid b) = 200
      \<and> body (routes_post_message w key fetch st sid b) = ChatResponse routes_timeout_text sid
      \<and> (\<exists>u a. messages (store (routes_post_message w key fetch st sid b)) = messages st @ [u, a]
            \<and> sessionId a = sid \<and> role a = ''assistant'' \<and> content a = routes_timeout_text))
   \<and> (fetched (netlify_post_message w key fetch nst sid b) = [nreq] \<and> fetch nreq = Rejected e
      \<and> error_name e = ''AbortError'' \<longrightarrow>
      abort_after_ms nreq = 25000
      \<and> status (netlify_post_message w key fetch nst sid b) = 200
      \<and> body (netlify_post_message w key fetch nst sid b) = ChatResponse netlify_timeout_text sid
      \<and> (\<exists>u a. conversations (store (netlify_post_message w key fetch nst sid b)) sid
             = Some ((case conversations nst sid of None \<Rightarrow> [] | Some ms \<Rightarrow> ms) @ [u, a])
            \<and> sessionId a = sid \<and> role a = ''assistant'' \<and> content a = netlify_timeout_text))"
  using routes_post_aborted [of w key fetch st sid b req e]
    netlify_post_aborted [of w key fetch nst sid b nreq e]
  by blast

theorem upstream_timeout_stored_witness:
  "fetched (routes_post_message sample_world (Some sample_key) upstream_timeout sample_storage ''s1''
      (Some ''hi''))
     = [completion_request sample_key
          (perplexityMessages 10
            [\<lparr>msg_id = sample_uuid 0, sessionId = ''s1'', role = ''user'', content = ''hi'',
              timestamp = Suc 0\<rparr>]) 30000]
   \<and> error_name (JsError ''AbortError'' ''This operation was aborted'') = ''AbortError''
   \<and> status (routes_post_message sample_world (Some sample_key) upstream_timeout sample_storage ''s1''
        (Some ''hi'')) = 200
   \<and> body (routes_post_message sample_world (Some sample_key) upstream_timeout sample_storage ''s1''
        (Some ''hi'')) = ChatResponse routes_timeout_text ''s1''
   \<and> fetched (netlify_post_message sample_world (Some sample_key) upstream_timeout empty_state ''s1''
        (Some ''hi''))
     = [completion_request sample_key
          (perplexityMessages 8
            [\<lparr>msg_id = sample_uuid 0, sessionId = ''s1'', role = ''user'', content = ''hi'',
              timestamp = Suc 0\<rparr>]) 25000]
   \<and> status (netlify_post_message sample_world (Some sample_key) upstream_timeout empty_state ''s1''
        (Some ''hi'')) = 200
   \<and> body (netlify_post_message sample_world (Some sample_key) upstream_timeout empty_state ''s1''
        (Some ''hi'')) = ChatResponse netlify_timeout_text ''s1''"
proof -
  let ?u = "\<lparr>msg_id = sample_uuid 0, sessionId = ''s1'', role = ''user'', content = ''hi'',
              timestamp = Suc 0\<rparr>"
  have s: "getChatSession sample_storage ''s1'' = Some sample_session"
    by (simp add: getChatSession_def sample_storage_def sample_session_def)
  have k: "sample_key \<noteq> []" "10 \<le> length sample_key"
    by (simp_all add: sample_key_def)
  have f1: "fetched (routes_post_message sample_world (Some sample_key) upstream_timeout
        sample_storage ''s1'' (Some ''hi''))
      = [completion_request sample_key (perplexityMessages 10 [?u]) 30000]"
    using routes_post_fetched [of "''hi''" sample_storage "''s1''" sample_session sample_key sample_world
        upstream_timeout] s k
    by (simp add: getMessagesBySessionId_def sample_storage_def sample_world_def)
  have f2: "fetched (netlify_post_message sample_world (Some sample_key) upstream_timeout
        empty_state ''s1'' (Some ''hi''))
      = [completion_request sample_key (perplexityMessages 8 [?u]) 25000]"
    using netlify_post_fetched [of "''hi''" sample_key sample_world upstream_timeout empty_state "''s1''"] k
    by (simp add: empty_state_def sample_world_def)
  have r: "\<And>q. upstream_timeout q = Rejected (JsError ''AbortError'' ''This operation was aborted'')"
    by (simp add: upstream_timeout_def)
  from upstream_timeout_stored [where w = sample_world and key = "Some sample_key"
      and fetch = upstream_timeout and st = sample_storage and sid = "''s1''" and b = "Some ''hi''"
      and req = "completion_request sample_key (perplexityMessages 10 [?u]) 30000"
      and nreq = "completion_request sample_key (perplexityMessages 8 [?u]) 25000"
      and e = "JsError ''AbortError'' ''This operation was aborted''" and nst = empty_state] f1 f2 r
  show ?thesis by simp
qed

text \<open>
  C7. While no credential is configured (the environment variable is undefined or
  empty), no post sends anything upstream. A post with non-empty content (in the primary
  server: to an existing session) is answered 200 with the fixed not-configured text,
  which is stored as the last message of the session, with role assistant.
\<close>

theorem no_credential_short_circuit:
  "(\<not> truthy key \<longrightarrow>
      fetched (routes_post_message w key fetch st sid b) = []
      \<and> fetched (netlify_post_message w key fetch nst sid b) = [])
   \<and> (\<not> truthy key \<and> c \<noteq> [] \<and> getChatSession st sid = Some s \<longrightarrow>
      status (routes_post_message w key fetch st sid (Some c)) = 200
      \<and> body (routes_post_message w key fetch st sid (Some c)) = ChatResponse routes_not_configured_text sid
      \<and> (\<exists>u a. messages (store (routes_post_message w key fetch st sid (Some c))) = messages st @ [u, a]
            \<and> sessionId a = sid \<and> role a = ''assistant'' \<and> content a = routes_not_configured_text))
   \<and> (\<not> truthy key \<and> c \<noteq> [] \<longrightarrow>
      status (netlify_post_message w key fetch nst sid (Some c)) = 200
      \<and> body (netlify_post_message w key fetch nst sid (Some c))
          = ChatResponse netlify_not_configured_text sid
      \<and> (\<exists>u a. conversations (store (netlify_post_message w key fetch nst sid (Some c))) sid
             = Some ((case conversations nst sid of None \<Rightarrow> [] | Some ms \<Rightarrow> ms) @ [u, a])
            \<and> sessionId a = sid \<and> role a = ''assistant'' \<and> content a = netlify_not_configured_text))"
  using routes_post_unconfigured [of key w fetch st sid b]
    netlify_post_unconfigured [of key w fetch nst sid b]
    routes_post_unconfigured_valid [of key c st sid s w fetch]
    netlify_post_unconfigured_valid [of key c w fetch nst sid]
  by blast

theorem no_credential_short_circuit_witness:
  "\<not> truthy None \<and> ''hi'' \<noteq> [] \<and> getChatSession sample_storage ''s1'' = Some sample_session
   \<and> fetched (routes_post_message sample_world None (upstream_reply ''yo'') sample_storage ''s1''
        (Some ''hi'')) = []
   \<and> body (routes_post_message sample_world None (upstream_reply ''yo'') sample_storage ''s1''
        (Some ''hi'')) = ChatResponse routes_not_configured_text ''s1''
   \<and> fetched (netlify_post_message sample_world None (upstream_reply ''yo'') empty_state ''s1''
        (Some ''hi'')) = []
   \<and> body (netlify_post_message sample_world None (upstream_reply ''yo'') empty_state ''s1''
        (Some ''hi'')) = ChatResponse netlify_not_configured_text ''s1''"
proof -
  have s: "getChatSession sample_storage ''s1'' = Some sample_session"
    by (simp add: getChatSession_def sample_storage_def sample_session_def)
  have t: "\<not> truthy None"
    by (simp add: truthy_def)
  from no_credential_short_circuit [where key = None and c = "''hi''" and st = sample_storage
      and sid = "''s1''" and s = sample_session and w = sample_world and fetch = "upstream_reply ''yo''"
      and nst = empty_state and b = "Some ''hi''"] s t
  show ?thesis by simp
qed

text \<open>
  C9. Whenever a post is answered 200, the call has appended two messages to the
  session, the second with role assistant, and the message field of the response body is
  the content of that second message. This covers the upstream success and every failure
  text, in both variants.
\<close>

theorem response_is_stored_reply:
  "(status (routes_post_message w key fetch st sid b) = 200 \<longrightarrow>
      (\<exists>u a. messages (store (routes_post_message w key fetch st sid b)) = messages st @ [u, a]
         \<and> role a = ''assistant'' \<and> sessionId a = sid
         \<and> body (routes_post_message w key fetch st sid b) = ChatResponse (content a) sid))
   \<and> (status (netlify_post_message w key fetch nst sid b) = 200 \<longrightarrow>
      (\<exists>u a. conversations (store (netlify_post_message w key fetch nst sid b)) sid
          = Some ((case conversations nst sid of None \<Rightarrow> [] | Some ms \<Rightarrow> ms) @ [u, a])
         \<and> role a = ''assistant'' \<and> sessionId a = sid
         \<and> body (netlify_post_message w key fetch nst sid b) = ChatResponse (content a) sid))"
  using routes_post_200 [of w key fetch st sid b] netlify_post_200 [of w key fetch nst sid b]
  by blast

theorem response_is_stored_reply_witness:
  "status (routes_post_message sample_world (Some sample_key) (upstream_reply ''yo'') sample_storage ''s1''
      (Some ''hi'')) = 200
   \<and> body (routes_post_message sample_world (Some sample_key) (upstream_reply ''yo'') sample_storage ''s1''
      (Some ''hi'')) = ChatResponse ''yo'' ''s1''
   \<and> map content (messages (store (routes_post_message sample_world (Some sample_key)
        (upstream_reply ''yo'') sample_storage ''s1'' (Some ''hi'')))) = [''hi'', ''yo'']
   \<and> status (netlify_post_message sample_world (Some sample_key) (upstream_reply ''yo'') empty_state ''s1''
      (Some ''hi'')) = 200
   \<and> body (netlify_post_message sample_world (Some sample_key) (upstream_reply ''yo'') empty_state ''s1''
      (Some ''hi'')) = ChatResponse ''yo'' ''s1''
   \<and> map_option (map content) (conversations (store (netlify_post_message sample_world (Some sample_key)
        (upstream_reply ''yo'') empty_state ''s1'' (Some ''hi''))) ''s1'') = Some [''hi'', ''yo'']"
proof -
  have r: "status (routes_post_message sample_world (Some sample_key) (upstream_reply ''yo'')
      sample_storage ''s1'' (Some ''hi'')) = 200"
    "body (routes_post_message sample_world (Some sample_key) (upstream_reply ''yo'') sample_storage ''s1''
      (Some ''hi'')) = ChatResponse ''yo'' ''s1''"
    by (simp_all add: routes_post_message_def chatMessageSchema_parse_Some getChatSession_def
        sample_storage_def sample_session_def sample_key_def truthy_def createMessage_eq
        upstream_reply_def response_ok_def first_content_def respond_def Let_def)
  have n: "status (netlify_post_message sample_world (Some sample_key) (upstream_reply ''yo'')
      empty_state ''s1'' (Some ''hi'')) = 200"
    "body (netlify_post_message sample_world (Some sample_key) (upstream_reply ''yo'') empty_state ''s1''
      (Some ''hi'')) = ChatResponse ''yo'' ''s1''"
    by (simp_all add: netlify_post_message_def netlify_aiResponse_def netlify_api_key_def
        empty_state_def sample_key_def truthy_def upstream_reply_def response_ok_def
        first_content_def respond_def Let_def)
  from response_is_stored_reply [where w = sample_world and key = "Some sample_key"
      and fetch = "upstream_reply ''yo''" and st = sample_storage and sid = "''s1''"
      and b = "Some ''hi''" and nst = empty_state] r n
  obtain u a v c where
    m: "messages (store (routes_post_message sample_world (Some sample_key) (upstream_reply ''yo'')
          sample_storage ''s1'' (Some ''hi''))) = messages sample_storage @ [u, a]"
      "content a = ''yo''"
    and cv: "conversations (store (netlify_post_message sample_world (Some sample_key)
          (upstream_reply ''yo'') empty_state ''s1'' (Some ''hi''))) ''s1''
        = Some ((case conversations empty_state ''s1'' of None \<Rightarrow> [] | Some ms \<Rightarrow> ms) @ [v, c])"
      "content c = ''yo''"
    by auto
  have u: "map content (messages (store (routes_post_message sample_world (Some sample_key)
        (upstream_reply ''yo'') sample_storage ''s1'' (Some ''hi'')))) = [''hi'', ''yo'']"
    by (simp add: routes_post_message_def chatMessageSchema_parse_Some getChatSession_def
        sample_storage_def sample_session_def sample_key_def truthy_def createMessage_eq
        upstream_reply_def response_ok_def first_content_def respond_def Let_def)
  have v: "map_option (map content) (conversations (store (netlify_post_message sample_world
        (Some sample_key) (upstream_reply ''yo'') empty_state ''s1'' (Some ''hi''))) ''s1'')
      = Some [''hi'', ''yo'']"
    by (simp add: netlify_post_message_def netlify_aiResponse_def netlify_api_key_def
        empty_state_def sample_key_def truthy_def upstream_reply_def response_ok_def
        first_content_def respond_def Let_def)
  show ?thesis using r n u v m cv by simp
qed

section \<open>Reading the messages of a session\<close>

text \<open>
  C2, on the primary server. The sample store holds the session s1 and no message. The
  read answers 200 with the empty sequence: the route returns what the store holds and
  adds no greeting.
\<close>

theorem routes_read_not_seeded:
  "getChatSession sample_storage ''s1'' = Some sample_session
   \<and> getMessagesBySessionId sample_storage ''s1'' = []
   \<and> status (routes_get_messages sample_storage ''s1'') = 200
   \<and> body (routes_get_messages sample_storage ''s1'') = MessagesBody []"
  by (simp add: routes_get_messages_def getChatSession_def getMessagesBySessionId_def
      sample_storage_def sample_session_def respond_def)

text \<open>
  C2, as the code has it. In the serverless function, when the conversation of an
  identifier is absent or empty, the read answers 200 with exactly one assistant message
  carrying the greeting, stores it, and a second read answers with that same single
  message and changes nothing. In the primary server the read of an existing session
  answers 200 with the messages the store holds for it, the store unchanged.
\<close>

theorem greeting_seed:
  "(conversations nst sid = None \<or> conversations nst sid = Some [] \<longrightarrow>
      (\<exists>g. status (netlify_get_messages w nst sid) = 200
         \<and> body (netlify_get_messages w nst sid) = MessagesBody [g]
         \<and> role g = ''assistant'' \<and> content g = greeting_text \<and> sessionId g = sid
         \<and> conversations (store (netlify_get_messages w nst sid)) sid = Some [g]
         \<and> status (netlify_get_messages w (store (netlify_get_messages w nst sid)) sid) = 200
         \<and> body (netlify_get_messages w (store (netlify_get_messages w nst sid)) sid) = MessagesBody [g]
         \<and> store (netlify_get_messages w (store (netlify_get_messages w nst sid)) sid)
             = store (netlify_get_messages w nst sid)))
   \<and> (getChatSession st sid' = Some s \<longrightarrow>
        status (routes_get_messages st sid') = 200
        \<and> body (routes_get_messages st sid') = MessagesBody (getMessagesBySessionId st sid')
        \<and> store (routes_get_messages st sid') = st)"
proof (intro conjI impI)
  assume a: "conversations nst sid = None \<or> conversations nst sid = Some []"
  let ?g = "\<lparr>msg_id = randomUUID w (uuids_drawn nst), sessionId = sid, role = ''assistant'',
             content = greeting_text, timestamp = clock w (uuids_drawn nst)\<rparr>"
  let ?st1 = "store (netlify_get_messages w nst sid)"
  have first: "netlify_get_messages w nst sid =
      respond 200 (MessagesBody [?g])
        (nst\<lparr>conversations := (conversations nst)(sid \<mapsto> [?g]),
             uuids_drawn := Suc (uuids_drawn nst)\<rparr>) []"
    using a by (rule netlify_get_seed)
  then have stored: "conversations ?st1 sid = Some [?g]"
    by (simp add: respond_def)
  have second: "netlify_get_messages w ?st1 sid = respond 200 (MessagesBody [?g]) ?st1 []"
    using stored by (rule netlify_get_stored) simp
  show "\<exists>g. status (netlify_get_messages w nst sid) = 200
         \<and> body (netlify_get_messages w nst sid) = MessagesBody [g]
         \<and> role g = ''assistant'' \<and> content g = greeting_text \<and> sessionId g = sid
         \<and> conversations (store (netlify_get_messages w nst sid)) sid = Some [g]
         \<and> status (netlify_get_messages w (store (netlify_get_messages w nst sid)) sid) = 200
         \<and> body (netlify_get_messages w (store (netlify_get_messages w nst sid)) sid) = MessagesBody [g]
         \<and> store (netlify_get_messages w (store (netlify_get_messages w nst sid)) sid)
             = store (netlify_get_messages w nst sid)"
    apply (rule exI [of _ ?g])
    apply (simp only: second)
    apply (simp add: first respond_def)
    done
next
  assume "getChatSession st sid' = Some s"
  then show "status (routes_get_messages st sid') = 200"
    and "body (routes_get_messages st sid') = MessagesBody (getMessagesBySessionId st sid')"
    and "store (routes_get_messages st sid') = st"
    by (simp_all add: routes_get_messages_def respond_def)
qed

theorem greeting_seed_witness:
  "(conversations empty_state ''s1'' = None \<or> conversations empty_state ''s1'' = Some [])
   \<and> (\<exists>g. body (netlify_get_messages sample_world empty_state ''s1'') = MessagesBody [g]
         \<and> content g = greeting_text
         \<and> body (netlify_get_messages sample_world
                   (store (netlify_get_messages sample_world empty_state ''s1'')) ''s1'') = MessagesBody [g])
   \<and> getChatSession sample_storage ''s1'' = Some sample_session
   \<and> body (routes_get_messages sample_storage ''s1'') = MessagesBody []"
proof -
  have a: "conversations empty_state ''s1'' = None \<or> conversations empty_state ''s1'' = Some []"
    by (simp add: empty_state_def)
  have b: "getChatSession sample_storage ''s1'' = Some sample_session"
    by (simp add: getChatSession_def sample_storage_def sample_session_def)
  have c: "getMessagesBySessionId sample_storage ''s1'' = []"
    by (simp add: getMessagesBySessionId_def sample_storage_def)
  from greeting_seed [of empty_state "''s1''" sample_world sample_storage "''s1''" sample_session] a b c
  show ?thesis by auto
qed

section \<open>Deleting a session\<close>

text \<open>
  C8, in the serverless function. Deleting the identifier nope, which has no
  conversation, is answered 200 "Session deleted successfully", not 404.
\<close>

theorem netlify_delete_absent_ok:
  "conversations empty_state ''nope'' = None
   \<and> status (netlify_delete_session empty_state ''nope'') = 200
   \<and> body (netlify_delete_session empty_state ''nope'') = MessageBody ''Session deleted successfully''"
  by (simp add: netlify_delete_session_def respond_def empty_state_def)

text \<open>
  C8, as the code has it. In the primary server, deleting an identifier without a
  session is answered 404 and changes nothing; deleting an existing session is answered
  200, after which the store has neither the session nor any message of it, a read of its
  messages is answered 404, and the messages of every other session are as before. In the
  serverless function the deletion is answered 200 whether or not a conversation exists;
  afterwards the map has no entry for the identifier, and the next read of its messages
  returns one newly made greeting.
\<close>

theorem delete_session_cascade:
  "(getChatSession st sid0 = None \<longrightarrow>
      status (routes_delete_session st sid0) = 404
      \<and> body (routes_delete_session st sid0) = ErrorBody ''Session not found''
      \<and> store (routes_delete_session st sid0) = st)
   \<and> (getChatSession st sid = Some s \<longrightarrow>
      status (routes_delete_session st sid) = 200
      \<and> getChatSession (store (routes_delete_session st sid)) sid = None
      \<and> getMessagesBySessionId (store (routes_delete_session st sid)) sid = []
      \<and> status (routes_get_messages (store (routes_delete_session st sid)) sid) = 404)
   \<and> (getChatSession st sid = Some s \<and> sid' \<noteq> sid \<longrightarrow>
      getMessagesBySessionId (store (routes_delete_session st sid)) sid' = getMessagesBySessionId st sid')
   \<and> status (netlify_delete_session nst sid) = 200
   \<and> conversations (store (netlify_delete_session nst sid)) sid = None
   \<and> body (netlify_get_messages w (store (netlify_delete_session nst sid)) sid)
       = MessagesBody [\<lparr>msg_id = randomUUID w (uuids_drawn nst), sessionId = sid, role = ''assistant'',
                        content = greeting_text, timestamp = clock w (uuids_drawn nst)\<rparr>]"
proof -
  have absent: "getChatSession st sid0 = None \<longrightarrow>
      status (routes_delete_session st sid0) = 404
      \<and> body (routes_delete_session st sid0) = ErrorBody ''Session not found''
      \<and> store (routes_delete_session st sid0) = st"
    by (simp add: routes_delete_session_def respond_def)
  have del: "getChatSession st sid = Some s \<Longrightarrow>
      routes_delete_session st sid
        = respond 200 (MessageBody ''Session deleted successfully'') (deleteChatSession st sid) []"
    by (simp add: routes_delete_session_def)
  have present: "getChatSession st sid = Some s \<longrightarrow>
      status (routes_delete_session st sid) = 200
      \<and> getChatSession (store (routes_delete_session st sid)) sid = None
      \<and> getMessagesBySessionId (store (routes_delete_session st sid)) sid = []
      \<and> status (routes_get_messages (store (routes_delete_session st sid)) sid) = 404"
    using del
    by (simp add: respond_def getChatSession_deleted getMessages_deleted routes_get_messages_def)
  have others: "getChatSession st sid = Some s \<and> sid' \<noteq> sid \<longrightarrow>
      getMessagesBySessionId (store (routes_delete_session st sid)) sid' = getMessagesBySessionId st sid'"
    using del by (simp add: respond_def getMessages_deleted_other)
  have gone: "conversations (store (netlify_delete_session nst sid)) sid = None"
    "status (netlify_delete_session nst sid) = 200"
    "uuids_drawn (store (netlify_delete_session nst sid)) = uuids_drawn nst"
    by (simp_all add: netlify_delete_session_def respond_def)
  have reread: "body (netlify_get_messages w (store (netlify_delete_session nst sid)) sid)
       = MessagesBody [\<lparr>msg_id = randomUUID w (uuids_drawn nst), sessionId = sid, role = ''assistant'',
                        content = greeting_text, timestamp = clock w (uuids_drawn nst)\<rparr>]"
    using netlify_get_seed [of "store (netlify_delete_session nst sid)" sid w] gone
    by (simp add: respond_def)
  show ?thesis using absent present others gone reread by simp
qed

theorem delete_session_cascade_witness:
  "getChatSession busy_storage ''nope'' = None
   \<and> status (routes_delete_session busy_storage ''nope'') = 404
   \<and> getChatSession busy_storage ''s1'' = Some sample_session
   \<and> length (getMessagesBySessionId busy_storage ''s1'') = 10
   \<and> status (routes_delete_session busy_storage ''s1'') = 200
   \<and> getMessagesBySessionId (store (routes_delete_session busy_storage ''s1'')) ''s1'' = []
   \<and> status (routes_get_messages (store (routes_delete_session busy_storage ''s1'')) ''s1'') = 404
   \<and> ''s2'' \<noteq> ''s1''
   \<and> getMessagesBySessionId (store (routes_delete_session busy_storage ''s1'')) ''s2''
       = getMessagesBySessionId busy_storage ''s2''
   \<and> conversations (store (netlify_delete_session busy_state ''s1'')) ''s1'' = None"
proof -
  have a: "getChatSession busy_storage ''nope'' = None"
    by (simp add: getChatSession_def busy_storage_def sample_session_def)
  have b: "getChatSession busy_storage ''s1'' = Some sample_session"
    by (simp add: getChatSession_def busy_storage_def sample_session_def)
  have c: "length (getMessagesBySessionId busy_storage ''s1'') = 10"
    by (simp add: getMessagesBySessionId_def busy_storage_def sample_message_def)
  from delete_session_cascade [where st = busy_storage and ?sid0.0 = "''nope''" and sid = "''s1''"
      and s = sample_session and sid' = "''s2''" and nst = busy_state and w = sample_world] a b c
  show ?thesis by simp
qed

section \<open>The session listing of the serverless function\<close>

text \<open>
  C10. In the serverless function, GET /api/chat/sessions answers 200 with the empty
  sequence in every state and leaves the state as it is. In particular, right after
  POST /api/chat/sessions has answered 200 and entered the new session's identifier in
  the conversations map, the listing is still empty.
\<close>

theorem netlify_listing_always_empty:
  "status (netlify_get_sessions st) = 200
   \<and> body (netlify_get_sessions st) = SessionsBody []
   \<and> store (netlify_get_sessions st) = st
   \<and> status (netlify_create_session w st t) = 200
   \<and> conversations (store (netlify_create_session w st t)) (randomUUID w (uuids_drawn st)) = Some []
   \<and> body (netlify_get_sessions (store (netlify_create_session w st t))) = SessionsBody []"
  by (simp add: netlify_get_sessions_def netlify_create_session_def respond_def Let_def)

end
